theory Spec2Isabelle
  imports Main "HOL-Library.Word"
begin

section \<open>Text\<close>

text \<open>
  The program is \<^verbatim>\<open>clean_images.py\<close>: a handler class \<^verbatim>\<open>ImageMetadataCleaner\<close>
  with the methods \<^verbatim>\<open>is_image_file\<close>, \<^verbatim>\<open>get_metadata\<close>, \<^verbatim>\<open>display_metadata\<close> and
  \<^verbatim>\<open>clean_image_metadata\<close>.

  Two kinds of Python \<^verbatim>\<open>str\<close> occur. Tag names, labels, file paths, mode and format
  names are written as \<^typ>\<open>string\<close>: a \<^typ>\<open>char\<close> stands for a code point below 256.
  Text that is decoded from a file or printed is a list of code points (\<open>ustr\<close>), since
  a decoded tag value may hold any code point and \<^verbatim>\<open>len\<close> counts code points.
\<close>

type_synonym ustr = "nat list"

definition text_of :: "string \<Rightarrow> ustr" where
  "text_of s = map of_char s"

text \<open>
  \<^verbatim>\<open>str.lower()\<close> on code points below 256: the ASCII capitals and the Latin-1 capitals
  (U+00C0 to U+00DE without the multiplication sign U+00D7) move up by 32.
\<close>

definition lower_char :: "char \<Rightarrow> char" where
  "lower_char c =
     (let n = (of_char c :: nat)
      in if (65 \<le> n \<and> n \<le> 90) \<or> (192 \<le> n \<and> n \<le> 222 \<and> n \<noteq> 215)
         then char_of (n + 32) else c)"

definition lower :: "string \<Rightarrow> string" where
  "lower s = map lower_char s"

text \<open>\<^verbatim>\<open>s.startswith(p)\<close> and the substring test \<^verbatim>\<open>a in b\<close>.\<close>

fun startswith :: "'a list \<Rightarrow> 'a list \<Rightarrow> bool" where
  "startswith s [] = True"
| "startswith [] (p # ps) = False"
| "startswith (c # s) (p # ps) = (c = p \<and> startswith s ps)"

fun str_in :: "'a list \<Rightarrow> 'a list \<Rightarrow> bool" where
  "str_in a [] = (a = [])"
| "str_in a (c # s) = (startswith (c # s) a \<or> str_in a s)"

text \<open>\<^verbatim>\<open>sep.join(parts)\<close>.\<close>

fun join :: "'a list \<Rightarrow> 'a list list \<Rightarrow> 'a list" where
  "join sep [] = []"
| "join sep [x] = x"
| "join sep (x # y # ys) = x @ sep @ join sep (y # ys)"

text \<open>The decimal numeral \<^verbatim>\<open>str(n)\<close> of an integer.\<close>

function str_nat :: "nat \<Rightarrow> ustr" where
  "str_nat n = (if n < 10 then [48 + n] else str_nat (n div 10) @ [48 + n mod 10])"
  by pat_completeness auto
termination
  by (relation "measure id") auto

declare str_nat.simps [simp del]

definition str_int :: "int \<Rightarrow> ustr" where
  "str_int i = (if i < 0 then 45 # str_nat (nat (- i)) else str_nat (nat i))"

text \<open>Order of two strings under \<^verbatim>\<open><\<close>: lexicographic by code point.\<close>

fun str_lt :: "string \<Rightarrow> string \<Rightarrow> bool" where
  "str_lt [] [] = False"
| "str_lt [] (b # bs) = True"
| "str_lt (a # as) [] = False"
| "str_lt (a # as) (b # bs) =
     (if a = b then str_lt as bs else (of_char a :: nat) < of_char b)"

section \<open>The sensitivity checks of the report\<close>

text \<open>
  \<^verbatim>\<open>display_metadata\<close> classifies a tag name in two places: \<^verbatim>\<open>is_sensitive\<close> (line 164)
  and the test \<^verbatim>\<open>'serial' in key.lower()\<close> (line 179).
\<close>

definition sensitive_fields :: "string list" where
  "sensitive_fields =
     [''SerialNumber'', ''BodySerialNumber'', ''LensSerialNumber'',
      ''CameraSerialNumber'', ''InternalSerialNumber'', ''Serial Number'',
      ''Make'', ''Model'', ''Software'', ''Artist'', ''Copyright'',
      ''OwnerName'', ''GPSInfo'', ''GPSLatitude'', ''GPSLongitude'',
      ''GPSAltitude'', ''DateTime'', ''DateTimeOriginal'', ''DateTimeDigitized'',
      ''MakerNote'', ''UserComment'', ''ImageUniqueID'', ''DocumentName'']"

definition is_sensitive :: "string \<Rightarrow> bool" where
  "is_sensitive key = list_ex (\<lambda>sensitive. str_in (lower sensitive) (lower key)) sensitive_fields"

definition is_serial :: "string \<Rightarrow> bool" where
  "is_serial key = str_in ''serial'' (lower key)"

text \<open>
  The specification's wording, for comparison: a name contains a term case-insensitively
  when the lowered term occurs as a block of consecutive characters of the lowered name.
\<close>

definition contains_ci :: "string \<Rightarrow> string \<Rightarrow> bool" where
  "contains_ci name term = (\<exists>pre post. lower name = pre @ lower term @ post)"

section \<open>Values, dictionaries and exceptions\<close>

text \<open>
  A metadata value is an integer, a string, a byte sequence, a tuple, a dictionary or
  none; \<open>VOther\<close> stands for a value of any other type (a float, a rational), carried
  with its \<^verbatim>\<open>str()\<close>. A dictionary key is a string or, for a tag id that the
  library's table does not name, the integer id itself.
\<close>

type_synonym byte = "8 word"

datatype key = KStr string | KInt int

datatype val =
    VNone
  | VInt int
  | VStr ustr
  | VBytes "byte list"
  | VTuple "val list"
  | VDict "(key \<times> val) list"
  | VOther ustr

type_synonym dict = "(key \<times> val) list"

text \<open>
  A Python \<^verbatim>\<open>dict\<close> is kept as an association list in insertion order with one entry
  per key: \<^verbatim>\<open>d[k] = v\<close> replaces the entry of \<open>k\<close> in place or appends a new one.
\<close>

fun dict_set :: "('k \<times> 'v) list \<Rightarrow> 'k \<Rightarrow> 'v \<Rightarrow> ('k \<times> 'v) list" where
  "dict_set [] k v = [(k, v)]"
| "dict_set ((k', v') # d) k v =
     (if k' = k then (k, v) # d else (k', v') # dict_set d k v)"

definition keys :: "('k \<times> 'v) list \<Rightarrow> 'k set" where
  "keys d = set (map fst d)"

text \<open>
  The exceptions below are all subclasses of \<^verbatim>\<open>Exception\<close>; each carries its message
  \<^verbatim>\<open>str(e)\<close>. The program tells \<^verbatim>\<open>AttributeError\<close> and \<^verbatim>\<open>TypeError\<close> apart from the rest.
\<close>

datatype exn = AttributeError ustr | TypeError ustr | OtherError ustr

fun exn_str :: "exn \<Rightarrow> ustr" where
  "exn_str (AttributeError m) = m"
| "exn_str (TypeError m) = m"
| "exn_str (OtherError m) = m"

text \<open>
  \<^verbatim>\<open>str(v)\<close>. For a byte sequence, a tuple and a dictionary it is the value's
  \<^verbatim>\<open>repr\<close>, whose quoting rules are the interpreter's: the function \<open>repr\<close> is a
  parameter.
\<close>

definition py_str :: "(val \<Rightarrow> ustr) \<Rightarrow> val \<Rightarrow> ustr" where
  "py_str repr v =
     (case v of
        VNone \<Rightarrow> text_of ''None''
      | VInt n \<Rightarrow> str_int n
      | VStr s \<Rightarrow> s
      | VOther s \<Rightarrow> s
      | _ \<Rightarrow> repr v)"

fun key_str :: "key \<Rightarrow> ustr" where
  "key_str (KStr s) = text_of s"
| "key_str (KInt n) = str_int n"

section \<open>Decoding UTF-8\<close>

text \<open>
  \<^verbatim>\<open>bytes.decode('utf-8', errors=...)\<close>. The decoder walks the bytes and yields either
  a code point or a malformed stretch that it hands to the error handler (\<open>None\<close>
  below). After an invalid start byte it resumes at the next byte; after an invalid
  continuation byte it resumes at that byte; a sequence cut off by the end of the
  input is one malformed stretch up to the end. Overlong forms, surrogates and code
  points past U+10FFFF are refused through the range of the second byte.
\<close>

datatype errors_mode = Strict | Ignore

definition is_cont :: "nat \<Rightarrow> bool" where
  "is_cont c = (128 \<le> c \<and> c < 192)"

definition second_ok3 :: "nat \<Rightarrow> nat \<Rightarrow> bool" where
  "second_ok3 b c = (is_cont c \<and> \<not> (b = 224 \<and> c < 160) \<and> \<not> (b = 237 \<and> 160 \<le> c))"

definition second_ok4 :: "nat \<Rightarrow> nat \<Rightarrow> bool" where
  "second_ok4 b c = (is_cont c \<and> \<not> (b = 240 \<and> c < 144) \<and> \<not> (b = 244 \<and> 144 \<le> c))"

fun utf8_scan :: "nat list \<Rightarrow> nat option list" where
  "utf8_scan [] = []"
| "utf8_scan (b # bs) =
     (if b < 128 then Some b # utf8_scan bs
      else if b < 194 then None # utf8_scan bs
      else if b < 224 then
        (case bs of
           [] \<Rightarrow> [None]
         | c # cs \<Rightarrow>
             if is_cont c then Some ((b - 192) * 64 + (c - 128)) # utf8_scan cs
             else None # utf8_scan bs)
      else if b < 240 then
        (case bs of
           [] \<Rightarrow> [None]
         | c # cs \<Rightarrow>
             if second_ok3 b c then
               (case cs of
                  [] \<Rightarrow> [None]
                | d # ds \<Rightarrow>
                    if is_cont d
                    then Some ((b - 224) * 4096 + (c - 128) * 64 + (d - 128)) # utf8_scan ds
                    else None # utf8_scan cs)
             else None # utf8_scan bs)
      else if b < 245 then
        (case bs of
           [] \<Rightarrow> [None]
         | c # cs \<Rightarrow>
             if second_ok4 b c then
               (case cs of
                  [] \<Rightarrow> [None]
                | d # ds \<Rightarrow>
                    if is_cont d then
                      (case ds of
                         [] \<Rightarrow> [None]
                       | e # es \<Rightarrow>
                           if is_cont e
                           then Some ((b - 240) * 262144 + (c - 128) * 4096
                                      + (d - 128) * 64 + (e - 128)) # utf8_scan es
                           else None # utf8_scan ds)
                    else None # utf8_scan cs)
             else None # utf8_scan bs)
      else None # utf8_scan bs)"

definition bytes_decode :: "errors_mode \<Rightarrow> byte list \<Rightarrow> exn + ustr" where
  "bytes_decode errors b =
     (let items = utf8_scan (map unat b)
      in case errors of
           Ignore \<Rightarrow> Inr (List.map_filter id items)
         | Strict \<Rightarrow>
             if None \<in> set items
             then Inl (OtherError (text_of ''UnicodeDecodeError''))
             else Inr (List.map_filter id items))"

section \<open>The image library\<close>

text \<open>
  What the program reads of an opened image: \<^verbatim>\<open>img.format\<close>, \<^verbatim>\<open>img.mode\<close>,
  \<^verbatim>\<open>img.size\<close>, the result of \<^verbatim>\<open>img.getexif()\<close> and of the older \<^verbatim>\<open>img._getexif()\<close>.
  The tag table of \<^verbatim>\<open>getexif\<close> lists the tag ids in iteration order, one entry per
  id; the library decodes a tag's value when it is read, so reading an entry either
  gives the value or raises. \<^verbatim>\<open>_getexif\<close> gives \<^verbatim>\<open>None\<close> or a plain dictionary from
  tag id to value.
\<close>

type_synonym exif_table = "(int \<times> (exn + val)) list"

record image =
  format :: "string option"
  mode :: string
  img_size :: "int \<times> int"
  getexif :: "exn + exif_table"
  getexif_old :: "exn + (int \<times> val) list option"
  pixels :: "byte list"

text \<open>
  A file has its bytes and two timestamps. The program only reads a timestamp and
  writes it back, so timestamps are values of an arbitrary type \<open>'t\<close>.
\<close>

record 't disk_file =
  content :: "byte list"
  mtime :: 't
  atime :: 't

text \<open>
  The library and the operating system, as far as the program calls them: the two tag
  name tables of \<^verbatim>\<open>PIL.ExifTags\<close>, \<^verbatim>\<open>repr\<close>, the decoder behind \<^verbatim>\<open>Image.open\<close>, the
  exception for a path that names no file, \<^verbatim>\<open>Image.new\<close>, \<^verbatim>\<open>convert\<close>, the last band of
  \<^verbatim>\<open>split()\<close>, \<^verbatim>\<open>paste\<close>, the encoder behind \<^verbatim>\<open>save\<close> (format name, \<^verbatim>\<open>quality\<close>,
  \<^verbatim>\<open>optimize\<close>), and the time the file system stamps on a file that is written.
  \<^verbatim>\<open>save\<close> gives the bytes now in the file, or an exception together with what it
  left in the file, if it touched it.
\<close>

record 't env =
  TAGS :: "int \<Rightarrow> string option"
  GPSTAGS :: "int \<Rightarrow> string option"
  repr :: "val \<Rightarrow> ustr"
  decoder :: "byte list \<Rightarrow> exn + image"
  no_such_file :: "string \<Rightarrow> exn"
  Image_new :: "string \<Rightarrow> int \<times> int \<Rightarrow> int \<times> int \<times> int \<Rightarrow> image"
  convert :: "image \<Rightarrow> string \<Rightarrow> exn + image"
  split_last :: "image \<Rightarrow> exn + image"
  paste :: "image \<Rightarrow> image \<Rightarrow> image option \<Rightarrow> exn + image"
  save :: "image \<Rightarrow> string \<Rightarrow> int option \<times> bool \<Rightarrow> (exn \<times> byte list option) + byte list"
  write_time :: 't

definition image_open :: "'t env \<Rightarrow> (string \<Rightarrow> 't disk_file option) \<Rightarrow> string \<Rightarrow> exn + image" where
  "image_open E fs path =
     (case fs path of
        None \<Rightarrow> Inl (no_such_file E path)
      | Some f \<Rightarrow> decoder E (content f))"

section \<open>get_metadata\<close>

text \<open>\<^verbatim>\<open>TABLE.get(tag_id, tag_id)\<close>: the name, or the id itself when the table has none.\<close>

definition resolve :: "(int \<Rightarrow> string option) \<Rightarrow> int \<Rightarrow> key" where
  "resolve table tag_id = (case table tag_id of Some name \<Rightarrow> KStr name | None \<Rightarrow> KInt tag_id)"

definition resolve_key :: "(int \<Rightarrow> string option) \<Rightarrow> key \<Rightarrow> key" where
  "resolve_key table k = (case k of KInt i \<Rightarrow> resolve table i | KStr s \<Rightarrow> KStr s)"

text \<open>The loop that renames the keys of a GPS dictionary (lines 81 to 84, 102 to 105).\<close>

definition resolve_gps :: "(int \<Rightarrow> string option) \<Rightarrow> dict \<Rightarrow> dict" where
  "resolve_gps table gps_dict =
     foldl (\<lambda>gps_data (k, v). dict_set gps_data (resolve_key table k) v) [] gps_dict"

text \<open>Lines 65 to 69: the first tag id that the primary table names \<open>GPSInfo\<close>.\<close>

definition find_gps_tag_id :: "(int \<Rightarrow> string option) \<Rightarrow> exif_table \<Rightarrow> int option" where
  "find_gps_tag_id table exifdata = find (\<lambda>tag_id. table tag_id = Some ''GPSInfo'') (map fst exifdata)"

text \<open>\<^verbatim>\<open>exifdata.get(tag_id)\<close>.\<close>

definition exif_get :: "exif_table \<Rightarrow> int \<Rightarrow> exn + val" where
  "exif_get exifdata tag_id = (case map_of exifdata tag_id of None \<Rightarrow> Inr VNone | Some r \<Rightarrow> r)"

text \<open>
  Lines 64 to 88. The result is the resolved GPS dictionary, \<open>None\<close> when nothing was
  resolved, or the exception that leaves the block: the inner handler catches
  \<^verbatim>\<open>AttributeError\<close> and \<^verbatim>\<open>TypeError\<close> only.
\<close>

definition gps_fallback :: "'t env \<Rightarrow> image \<Rightarrow> exif_table \<Rightarrow> exn + dict option" where
  "gps_fallback E img exifdata =
     (if exifdata = [] then Inr None
      else case find_gps_tag_id (TAGS E) exifdata of
        None \<Rightarrow> Inr None
      | Some gps_tag_id \<Rightarrow>
          (case exif_get exifdata gps_tag_id of
             Inl e \<Rightarrow> Inl e
           | Inr (VInt n) \<Rightarrow>
               (case getexif_old img of
                  Inl (AttributeError m) \<Rightarrow> Inr None
                | Inl (TypeError m) \<Rightarrow> Inr None
                | Inl (OtherError m) \<Rightarrow> Inl (OtherError m)
                | Inr None \<Rightarrow> Inr None
                | Inr (Some old_exif) \<Rightarrow>
                    (case map_of old_exif gps_tag_id of
                       Some (VDict gps_dict) \<Rightarrow> Inr (Some (resolve_gps (GPSTAGS E) gps_dict))
                     | _ \<Rightarrow> Inr None))
           | Inr _ \<Rightarrow> Inr None))"

definition ifd_offset_note :: "int \<Rightarrow> ustr" where
  "ifd_offset_note n =
     text_of ''IFD offset: '' @ str_int n
       @ text_of '' (GPS data pointer, not actual GPS coordinates)''"

definition bytes_note :: "byte list \<Rightarrow> ustr" where
  "bytes_note b = text_of ''<bytes: '' @ str_int (int (length b)) @ text_of '' bytes>''"

text \<open>
  Lines 121 to 130, the general branch: bytes are decoded with \<^verbatim>\<open>errors='ignore'\<close>
  inside a \<^verbatim>\<open>try\<close> whose handler stores the byte-count note; a tuple is joined.
\<close>

definition coerce :: "(val \<Rightarrow> ustr) \<Rightarrow> val \<Rightarrow> val" where
  "coerce rp v =
     (case v of
        VBytes b \<Rightarrow>
          (case bytes_decode Ignore b of
             Inr s \<Rightarrow> VStr s
           | Inl e \<Rightarrow> VStr (bytes_note b))
      | VTuple vs \<Rightarrow> VStr (join (text_of '', '') (map (py_str rp) vs))
      | _ \<Rightarrow> v)"

definition maker_note :: "val \<Rightarrow> ustr" where
  "maker_note v =
     (case v of
        VBytes b \<Rightarrow>
          text_of ''<Proprietary data: '' @ str_int (int (length b))
            @ text_of '' bytes - May contain device serial numbers>''
      | _ \<Rightarrow> text_of ''<Proprietary manufacturer data - May contain device serial numbers>'')"

text \<open>
  Lines 93 to 130: the body of the loop for one tag. In the branch for a dictionary
  value the source's handler for \<^verbatim>\<open>AttributeError\<close> and \<^verbatim>\<open>TypeError\<close> is not
  reachable (iterating a dictionary and looking a key up raise neither).
\<close>

definition store_tag :: "'t env \<Rightarrow> bool \<Rightarrow> int \<Rightarrow> val \<Rightarrow> dict \<Rightarrow> dict" where
  "store_tag E gps_info_resolved tag_id v metadata =
     (let tag = resolve (TAGS E) tag_id
      in if tag = KStr ''GPSInfo'' \<and> gps_info_resolved then metadata
         else case (tag = KStr ''GPSInfo'', v) of
                (True, VDict d) \<Rightarrow> dict_set metadata tag (VDict (resolve_gps (GPSTAGS E) d))
              | (True, VInt n) \<Rightarrow> dict_set metadata tag (VStr (ifd_offset_note n))
              | _ \<Rightarrow>
                  if tag = KStr ''MakerNote'' then dict_set metadata tag (VStr (maker_note v))
                  else dict_set metadata tag (coerce (repr E) v))"

text \<open>
  Lines 91 to 130: the loop over \<^verbatim>\<open>exifdata.items()\<close>. Reading an entry may raise; the
  dictionary built so far is what the handler of \<^verbatim>\<open>get_metadata\<close> then sees.
\<close>

fun process_tags :: "'t env \<Rightarrow> bool \<Rightarrow> exif_table \<Rightarrow> dict \<Rightarrow> dict \<times> exn option" where
  "process_tags E gps_info_resolved [] metadata = (metadata, None)"
| "process_tags E gps_info_resolved ((tag_id, r) # rest) metadata =
     (case r of
        Inl e \<Rightarrow> (metadata, Some e)
      | Inr v \<Rightarrow>
          process_tags E gps_info_resolved rest (store_tag E gps_info_resolved tag_id v metadata))"

definition format_val :: "string option \<Rightarrow> val" where
  "format_val f = (case f of None \<Rightarrow> VNone | Some s \<Rightarrow> VStr (text_of s))"

definition add_image_info :: "image \<Rightarrow> dict \<Rightarrow> dict" where
  "add_image_info img metadata =
     dict_set
       (dict_set
          (dict_set metadata (KStr ''Image Format'') (format_val (format img)))
          (KStr ''Image Mode'') (VStr (text_of (mode img))))
       (KStr ''Image Size'') (VTuple [VInt (fst (img_size img)), VInt (snd (img_size img))])"

text \<open>
  Lines 58 to 135, the body of the \<^verbatim>\<open>try\<close>: the dictionary as it stands when the body
  ends, and the exception that ended it, if any.
\<close>

definition extract_tags :: "'t env \<Rightarrow> image \<Rightarrow> dict \<times> exn option" where
  "extract_tags E img =
     (case getexif img of
        Inl e \<Rightarrow> ([], Some e)
      | Inr exifdata \<Rightarrow>
          (case gps_fallback E img exifdata of
             Inl e \<Rightarrow> ([], Some e)
           | Inr g \<Rightarrow>
               (case process_tags E (g \<noteq> None) exifdata
                       (case g of None \<Rightarrow> [] | Some gps_data \<Rightarrow> [(KStr ''GPSInfo'', VDict gps_data)]) of
                  (metadata, Some e) \<Rightarrow> (metadata, Some e)
                | (metadata, None) \<Rightarrow> (add_image_info img metadata, None))))"

definition get_metadata_try :: "'t env \<Rightarrow> (string \<Rightarrow> 't disk_file option) \<Rightarrow> string \<Rightarrow> dict \<times> exn option" where
  "get_metadata_try E fs image_path =
     (case image_open E fs image_path of
        Inl e \<Rightarrow> ([], Some e)
      | Inr img \<Rightarrow> extract_tags E img)"

text \<open>
  \<^verbatim>\<open>get_metadata\<close>: the handler \<^verbatim>\<open>except Exception\<close> stores the message under \<open>Error\<close>
  in the dictionary as it stands.
\<close>

definition get_metadata :: "'t env \<Rightarrow> (string \<Rightarrow> 't disk_file option) \<Rightarrow> string \<Rightarrow> exn + dict" where
  "get_metadata E fs image_path =
     (case get_metadata_try E fs image_path of
        (metadata, None) \<Rightarrow> Inr metadata
      | (metadata, Some e) \<Rightarrow> Inr (dict_set metadata (KStr ''Error'') (VStr (exn_str e))))"

section \<open>display_metadata\<close>

text \<open>
  \<^verbatim>\<open>sorted(d.items())\<close>. The items are pairs whose first components, the keys of a
  dictionary, differ, so the order of two items is the order of their keys under
  \<^verbatim>\<open><\<close>, which is defined between two strings and between two integers and raises
  \<^verbatim>\<open>TypeError\<close> between a string and an integer. The sort inserts each item into the
  sorted run of the items before it.
\<close>

definition lt_error :: "string \<Rightarrow> string \<Rightarrow> exn" where
  "lt_error a b =
     TypeError ([39] @ text_of ''<'' @ [39] @ text_of '' not supported between instances of ''
                @ [39] @ text_of a @ [39] @ text_of '' and '' @ [39] @ text_of b @ [39])"

fun key_lt :: "key \<Rightarrow> key \<Rightarrow> exn + bool" where
  "key_lt (KStr a) (KStr b) = Inr (str_lt a b)"
| "key_lt (KInt a) (KInt b) = Inr (a < b)"
| "key_lt (KStr a) (KInt b) = Inl (lt_error ''str'' ''int'')"
| "key_lt (KInt a) (KStr b) = Inl (lt_error ''int'' ''str'')"

fun insort_item :: "key \<times> 'v \<Rightarrow> (key \<times> 'v) list \<Rightarrow> exn + (key \<times> 'v) list" where
  "insort_item x [] = Inr [x]"
| "insort_item x (y # ys) =
     (case key_lt (fst x) (fst y) of
        Inl e \<Rightarrow> Inl e
      | Inr True \<Rightarrow> Inr (x # y # ys)
      | Inr False \<Rightarrow> (case insort_item x ys of Inl e \<Rightarrow> Inl e | Inr r \<Rightarrow> Inr (y # r)))"

definition sorted_items :: "(key \<times> 'v) list \<Rightarrow> exn + (key \<times> 'v) list" where
  "sorted_items d =
     foldl (\<lambda>acc x. case acc of Inl e \<Rightarrow> Inl e | Inr run \<Rightarrow> insort_item x run) (Inr []) d"

text \<open>The non-ASCII literals of the source file, as the code points it holds.\<close>

definition lock_marker :: ustr where
  "lock_marker = [63743, 252, 238, 237, 32]"

definition warn_sign :: ustr where
  "warn_sign = [8218, 246, 8224, 212, 8719, 232]"

definition camera_sign :: ustr where
  "camera_sign = [63743, 252, 236, 8721]"

definition check_sign :: ustr where
  "check_sign = [8218, 250, 236]"

definition cross_sign :: ustr where
  "cross_sign = [8218, 250, 243]"

definition descriptive :: "string list" where
  "descriptive = [''Image Format'', ''Image Mode'', ''Image Size'']"

definition no_lower :: exn where
  "no_lower = AttributeError ([39] @ text_of ''int'' @ [39] @ text_of '' object has no attribute ''
                              @ [39] @ text_of ''lower'' @ [39])"

text \<open>
  Lines 159 to 184: the body of the loop for one entry, giving the lines it prints and
  the exception that ends it, if any. An integer key is not one of the three
  descriptive names, and \<^verbatim>\<open>key.lower()\<close> raises for it.
\<close>

definition display_entry :: "(val \<Rightarrow> ustr) \<Rightarrow> key \<Rightarrow> val \<Rightarrow> ustr list \<times> exn option" where
  "display_entry rp key v =
     (case key of
        KInt n \<Rightarrow> ([], Some no_lower)
      | KStr k \<Rightarrow>
          if k \<in> set descriptive then ([], None)
          else
            let marker = (if is_sensitive k then lock_marker else text_of ''   '')
            in (case (k = ''GPSInfo'', v) of
                 (True, VDict d) \<Rightarrow>
                   (let head = text_of ''    '' @ marker @ text_of k @ text_of '' (Location Data):''
                    in case sorted_items d of
                         Inl e \<Rightarrow> ([head], Some e)
                       | Inr items \<Rightarrow>
                           (head # map (\<lambda>(gps_key, gps_value).
                                          text_of ''      '' @ key_str gps_key @ text_of '': ''
                                            @ py_str rp gps_value) items,
                            None))
               | _ \<Rightarrow>
                   (let s = py_str rp v;
                        value_str = (if length s > 100 then take 100 s @ text_of ''...'' else s)
                    in if is_serial k then
                         ([text_of ''    '' @ marker @ text_of k @ text_of '': '' @ value_str
                             @ [32] @ warn_sign @ text_of '' Device Serial Number''], None)
                       else if is_sensitive k then
                         ([text_of ''    '' @ marker @ text_of k @ text_of '': '' @ value_str
                             @ [32] @ warn_sign @ text_of '' Sensitive''], None)
                       else ([text_of ''    '' @ text_of k @ text_of '': '' @ value_str], None))))"

fun display_entries :: "(val \<Rightarrow> ustr) \<Rightarrow> dict \<Rightarrow> ustr list \<Rightarrow> ustr list \<times> exn option" where
  "display_entries rp [] out = (out, None)"
| "display_entries rp ((key, v) # rest) out =
     (case display_entry rp key v of
        (lines, Some e) \<Rightarrow> (out @ lines, Some e)
      | (lines, None) \<Rightarrow> display_entries rp rest (out @ lines))"

text \<open>
  \<^verbatim>\<open>display_metadata\<close>: the lines printed, and the exception raised, if any. The header
  is printed before the items are sorted.
\<close>

definition display_metadata :: "(val \<Rightarrow> ustr) \<Rightarrow> dict \<Rightarrow> string \<Rightarrow> ustr list \<times> exn option" where
  "display_metadata rp metadata label =
     (if metadata = [] then ([text_of ''  '' @ text_of label @ text_of '': No metadata found''], None)
      else case sorted_items metadata of
             Inl e \<Rightarrow> ([text_of ''  '' @ text_of label @ text_of '':''], Some e)
           | Inr items \<Rightarrow> display_entries rp items [text_of ''  '' @ text_of label @ text_of '':''])"

section \<open>Paths\<close>

text \<open>
  \<^verbatim>\<open>pathlib.Path\<close> on a POSIX system: a path is its root and its parts, empty parts
  and \<open>.\<close> dropped; \<^verbatim>\<open>str\<close> joins them again; \<^verbatim>\<open>name\<close> is the last part and \<^verbatim>\<open>suffix\<close>
  the name from its last dot on, when that dot is neither first nor last in the name.
\<close>

fun split_on :: "'a \<Rightarrow> 'a list \<Rightarrow> 'a list list" where
  "split_on sep [] = [[]]"
| "split_on sep (c # s) =
     (if c = sep then [] # split_on sep s
      else case split_on sep s of
             [] \<Rightarrow> [[c]]
           | p # ps \<Rightarrow> (c # p) # ps)"

definition path_parts :: "string \<Rightarrow> string list" where
  "path_parts p = filter (\<lambda>s. s \<noteq> [] \<and> s \<noteq> ''.'') (split_on CHR ''/'' p)"

definition path_root :: "string \<Rightarrow> string" where
  "path_root p =
     (if startswith p ''//'' \<and> \<not> startswith p ''///'' then ''//''
      else if startswith p ''/'' then ''/''
      else [])"

definition path_str :: "string \<Rightarrow> string" where
  "path_str p =
     (if path_root p = [] \<and> path_parts p = [] then ''.''
      else path_root p @ join ''/'' (path_parts p))"

definition path_name :: "string \<Rightarrow> string" where
  "path_name p = (case path_parts p of [] \<Rightarrow> [] | x # xs \<Rightarrow> last (x # xs))"

definition rfind :: "'a \<Rightarrow> 'a list \<Rightarrow> nat option" where
  "rfind c s =
     (case filter (\<lambda>i. s ! i = c) (rev [0..<length s]) of
        [] \<Rightarrow> None
      | i # rest \<Rightarrow> Some i)"

definition path_suffix :: "string \<Rightarrow> string" where
  "path_suffix p =
     (let name = path_name p
      in case rfind CHR ''.'' name of
           None \<Rightarrow> []
         | Some i \<Rightarrow> if 0 < i \<and> i + 1 < length name then drop i name else [])"

definition SUPPORTED_FORMATS :: "string set" where
  "SUPPORTED_FORMATS = {''.jpg'', ''.jpeg'', ''.png'', ''.tiff'', ''.tif'', ''.bmp'', ''.webp''}"

definition is_image_file :: "string \<Rightarrow> bool" where
  "is_image_file file_path = (lower (path_suffix file_path) \<in> SUPPORTED_FORMATS)"

section \<open>clean_image_metadata\<close>

text \<open>
  The state the method works on: the files by path, the handler's set
  \<^verbatim>\<open>processed_files\<close>, and what has been printed to the two streams.
\<close>

record 't state =
  files :: "string \<Rightarrow> 't disk_file option"
  processed_files :: "string set"
  stdout :: "ustr list"
  stderr :: "ustr list"

text \<open>
  Lines 205 and 206, 242 and 243: take the snapshot and print it. The lines printed
  before an exception stay printed.
\<close>

definition show_metadata :: "'t env \<Rightarrow> string \<Rightarrow> string \<Rightarrow> 't state \<Rightarrow> 't state \<times> (exn + dict)" where
  "show_metadata E path label st =
     (case get_metadata E (files st) path of
        Inl e \<Rightarrow> (st, Inl e)
      | Inr metadata \<Rightarrow>
          (case display_metadata (repr E) metadata label of
             (lines, None) \<Rightarrow> (st\<lparr>stdout := stdout st @ lines\<rparr>, Inr metadata)
           | (lines, Some e) \<Rightarrow> (st\<lparr>stdout := stdout st @ lines\<rparr>, Inl e)))"

text \<open>Lines 215 to 223: the image that is saved.\<close>

definition to_rgb :: "'t env \<Rightarrow> image \<Rightarrow> exn + image" where
  "to_rgb E img =
     (if mode img \<in> {''RGBA'', ''LA'', ''P''} then
        (let background = Image_new E ''RGB'' (img_size img) (255, 255, 255)
         in case (if mode img = ''P'' then convert E img ''RGBA'' else Inr img) of
              Inl e \<Rightarrow> Inl e
            | Inr img1 \<Rightarrow>
                (case (if mode img1 \<in> {''RGBA'', ''LA''}
                       then (case split_last E img1 of Inl e \<Rightarrow> Inl e | Inr band \<Rightarrow> Inr (Some band))
                       else Inr None) of
                   Inl e \<Rightarrow> Inl e
                 | Inr alpha \<Rightarrow> paste E background img1 alpha))
      else if mode img \<noteq> ''RGB'' then convert E img ''RGB''
      else Inr img)"

text \<open>Lines 227 to 236: the format name and the options of the call of \<^verbatim>\<open>save\<close>.\<close>

definition save_args :: "string \<Rightarrow> (string \<times> int option \<times> bool) option" where
  "save_args suffix =
     (if suffix \<in> {''.jpg'', ''.jpeg''} then Some (''JPEG'', Some 95, True)
      else if suffix = ''.png'' then Some (''PNG'', None, True)
      else if suffix \<in> {''.tiff'', ''.tif''} then Some (''TIFF'', None, False)
      else if suffix = ''.webp'' then Some (''WEBP'', Some 95, False)
      else if suffix = ''.bmp'' then Some (''BMP'', None, False)
      else None)"

definition utime :: "string \<Rightarrow> 't \<times> 't \<Rightarrow> 't env \<Rightarrow> 't state \<Rightarrow> 't state \<times> exn option" where
  "utime path ts E st =
     (case files st path of
        None \<Rightarrow> (st, Some (no_such_file E path))
      | Some f \<Rightarrow>
          (st\<lparr>files := (files st)(path \<mapsto> f\<lparr>atime := fst ts, mtime := snd ts\<rparr>)\<rparr>, None))"

text \<open>
  Lines 209 to 239: read the modification time, open the image, convert it, save it
  over the file, set both times of the file to the time read.
\<close>

definition reencode :: "'t env \<Rightarrow> string \<Rightarrow> string \<Rightarrow> 't state \<Rightarrow> 't state \<times> exn option" where
  "reencode E path suffix st =
     (case files st path of
        None \<Rightarrow> (st, Some (no_such_file E path))
      | Some f \<Rightarrow>
          (let original_mtime = mtime f
           in case decoder E (content f) of
                Inl e \<Rightarrow> (st, Some e)
              | Inr img \<Rightarrow>
                  (case to_rgb E img of
                     Inl e \<Rightarrow> (st, Some e)
                   | Inr img' \<Rightarrow>
                       (case save_args suffix of
                          None \<Rightarrow> utime path (original_mtime, original_mtime) E st
                        | Some (fmt, opts) \<Rightarrow>
                            (case save E img' fmt opts of
                               Inl (e, None) \<Rightarrow> (st, Some e)
                             | Inl (e, Some left) \<Rightarrow>
                                 (st\<lparr>files := (files st)
                                        (path \<mapsto> f\<lparr>content := left, mtime := write_time E\<rparr>)\<rparr>,
                                  Some e)
                             | Inr written \<Rightarrow>
                                 utime path (original_mtime, original_mtime) E
                                   (st\<lparr>files := (files st)
                                          (path \<mapsto> f\<lparr>content := written, mtime := write_time E\<rparr>)\<rparr>))))))"

definition dashes :: ustr where
  "dashes = replicate 50 45"

text \<open>
  Lines 201 to 250, after the two guards: the new state and either the exception that
  ended the work or the two snapshots taken (the method itself keeps neither).
\<close>

definition strip :: "'t env \<Rightarrow> string \<Rightarrow> 't state \<Rightarrow> 't state \<times> (exn + dict \<times> dict)" where
  "strip E image_path st =
     (let path = path_str image_path;
          st1 = st\<lparr>stdout := stdout st
                   @ [[10] @ camera_sign @ text_of '' Processing: '' @ text_of (path_name image_path),
                      dashes]\<rparr>
      in case show_metadata E path ''Metadata BEFORE cleaning'' st1 of
           (st2, Inl e) \<Rightarrow> (st2, Inl e)
         | (st2, Inr metadata_before) \<Rightarrow>
             (case reencode E path (lower (path_suffix image_path)) st2 of
                (st3, Some e) \<Rightarrow> (st3, Inl e)
              | (st3, None) \<Rightarrow>
                  (case show_metadata E path ''Metadata AFTER cleaning'' st3 of
                     (st4, Inl e) \<Rightarrow> (st4, Inl e)
                   | (st4, Inr metadata_after) \<Rightarrow>
                       (st4\<lparr>processed_files := insert path (processed_files st4),
                            stdout := stdout st4
                              @ [check_sign @ text_of '' Cleaned metadata from: ''
                                   @ text_of (path_name image_path),
                                 dashes]\<rparr>,
                        Inr (metadata_before, metadata_after)))))"

text \<open>
  \<^verbatim>\<open>clean_image_metadata\<close>: the value returned and the new state. The handler
  \<^verbatim>\<open>except Exception\<close> prints to the error stream and returns \<^verbatim>\<open>False\<close>.
\<close>

definition clean_image_metadata :: "'t env \<Rightarrow> string \<Rightarrow> 't state \<Rightarrow> bool \<times> 't state" where
  "clean_image_metadata E image_path st =
     (if \<not> is_image_file image_path then (False, st)
      else if path_str image_path \<in> processed_files st then (False, st)
      else case strip E image_path st of
             (st', Inr snapshots) \<Rightarrow> (True, st')
           | (st', Inl e) \<Rightarrow>
               (False,
                st'\<lparr>stderr := stderr st'
                      @ [cross_sign @ text_of '' Error processing '' @ text_of (path_str image_path)
                           @ text_of '': '' @ exn_str e]\<rparr>))"

section \<open>A small library instance\<close>

text \<open>
  Concrete inputs for the evaluations below. The two tables hold a few entries of
  \<^verbatim>\<open>PIL.ExifTags.TAGS\<close> and \<^verbatim>\<open>GPSTAGS\<close>. The library instance is built around a
  decoder; its encoder writes the one byte 0.
\<close>

definition sample_TAGS :: "int \<Rightarrow> string option" where
  "sample_TAGS =
     map_of [(256, ''ImageWidth''), (257, ''ImageLength''), (271, ''Make''), (272, ''Model''),
             (315, ''Artist''), (34853, ''GPSInfo''), (37500, ''MakerNote'')]"

definition sample_GPSTAGS :: "int \<Rightarrow> string option" where
  "sample_GPSTAGS =
     map_of [(1, ''GPSLatitudeRef''), (2, ''GPSLatitude''), (3, ''GPSLongitudeRef''),
             (4, ''GPSLongitude'')]"

definition plain_image :: "string \<Rightarrow> string \<Rightarrow> exif_table \<Rightarrow> image" where
  "plain_image fmt m tbl =
     \<lparr>format = Some fmt, mode = m, img_size = (4, 3), getexif = Inr tbl,
      getexif_old = Inr None, pixels = []\<rparr>"

definition sample_env :: "(byte list \<Rightarrow> exn + image) \<Rightarrow> nat env" where
  "sample_env dec =
     \<lparr>TAGS = sample_TAGS, GPSTAGS = sample_GPSTAGS,
      repr = (\<lambda>v. text_of ''<repr>''),
      decoder = dec,
      no_such_file = (\<lambda>p. OtherError (text_of ''No such file or directory'')),
      Image_new = (\<lambda>m sz colour.
         \<lparr>format = None, mode = m, img_size = sz, getexif = Inr [],
          getexif_old = Inr None, pixels = []\<rparr>),
      convert = (\<lambda>img m. Inr (img\<lparr>mode := m\<rparr>)),
      split_last = (\<lambda>img. Inr (img\<lparr>mode := ''L''\<rparr>)),
      paste = (\<lambda>background img alpha. Inr background),
      save = (\<lambda>img fmt opts. Inr [0]),
      write_time = 100\<rparr>"

text \<open>
  A photograph with a maker tag and a GPS offset; the encoder's output decodes to an
  image without tags.
\<close>

definition photo_decoder :: "byte list \<Rightarrow> exn + image" where
  "photo_decoder b =
     (if b = [1] then
        Inr (plain_image ''JPEG'' ''RGB''
               [(271, Inr (VStr (text_of ''Acme''))), (34853, Inr (VInt 1234))])
      else if b = [0] then Inr (plain_image ''JPEG'' ''RGB'' [])
      else Inl (OtherError (text_of ''cannot identify image file'')))"

definition one_file :: "string \<Rightarrow> nat state" where
  "one_file path =
     \<lparr>files = [path \<mapsto> \<lparr>content = [1], mtime = 7, atime = 9\<rparr>],
      processed_files = {}, stdout = [], stderr = []\<rparr>"

text \<open>
  A TIFF file: the decoder reports the entries of the file's image directory
  (\<open>ImageWidth\<close>, \<open>ImageLength\<close>, ...) as primary tags, and every TIFF file that the
  encoder writes has them.
\<close>

definition tiff_decoder :: "byte list \<Rightarrow> exn + image" where
  "tiff_decoder b =
     Inr (plain_image ''TIFF'' ''RGB'' [(256, Inr (VInt 4)), (257, Inr (VInt 3))])"

text \<open>A tag table whose second entry cannot be decoded when it is read.\<close>

definition broken_decoder :: "byte list \<Rightarrow> exn + image" where
  "broken_decoder b =
     Inr (plain_image ''JPEG'' ''RGB''
            [(271, Inr (VStr (text_of ''Acme''))),
             (272, Inl (OtherError (text_of ''tuple index out of range'')))])"

text \<open>A tag id that the table of names does not hold.\<close>

definition vendor_decoder :: "byte list \<Rightarrow> exn + image" where
  "vendor_decoder b = Inr (plain_image ''JPEG'' ''RGB'' [(59932, Inr (VInt 1))])"

section \<open>Auxiliary notions for the proofs\<close>

text \<open>Whether a key is a string.\<close>

definition is_str_key :: "key \<Rightarrow> bool" where
  "is_str_key k = (case k of KStr s \<Rightarrow> True | KInt i \<Rightarrow> False)"

section \<open>Properties of the text functions\<close>

lemma startswith_iff: "startswith s p = (\<exists>post. s = p @ post)"
  by (induction s p rule: startswith.induct) auto

lemma str_in_iff: "str_in a s = (\<exists>pre post. s = pre @ a @ post)"
proof (induction s)
  case Nil
  then show ?case by auto
next
  case (Cons c s)
  show ?case
  proof
    assume "str_in a (c # s)"
    then consider "startswith (c # s) a" | "str_in a s" by auto
    then show "\<exists>pre post. c # s = pre @ a @ post"
    proof cases
      case 1
      then obtain post where "c # s = a @ post" by (auto simp: startswith_iff)
      then have "c # s = [] @ a @ post" by simp
      then show ?thesis by blast
    next
      case 2
      then obtain pre post where "s = pre @ a @ post" using Cons.IH by auto
      then have "c # s = (c # pre) @ a @ post" by simp
      then show ?thesis by blast
    qed
  next
    assume "\<exists>pre post. c # s = pre @ a @ post"
    then obtain pre post where e: "c # s = pre @ a @ post" by auto
    show "str_in a (c # s)"
    proof (cases pre)
      case Nil
      with e have "startswith (c # s) a" by (auto simp: startswith_iff)
      then show ?thesis by simp
    next
      case (Cons d pre')
      with e have "s = pre' @ a @ post" by simp
      then have "str_in a s" using Cons.IH by auto
      then show ?thesis by simp
    qed
  qed
qed

lemma lower_serial: "lower ''serial'' = ''serial''"
  by (simp add: lower_def lower_char_def)

text \<open>
  C4. For every tag name, the report's sensitivity check holds exactly when the name
  contains, case-insensitively, some term of the fixed sensitive set, and the serial
  check holds exactly when the name contains \<open>serial\<close> case-insensitively. The two are
  separate computations: \<open>CameraSerialNumber\<close> passes both, \<open>Artist\<close> passes the first
  only, and a name such as \<open>Serial\<close> passes the second only.
\<close>

theorem classify_matches_spec:
  "is_sensitive name = (\<exists>t. t \<in> set sensitive_fields \<and> contains_ci name t)
   \<and> is_serial name = contains_ci name ''serial''
   \<and> is_sensitive ''CameraSerialNumber'' \<and> is_serial ''CameraSerialNumber''
   \<and> is_sensitive ''Artist'' \<and> \<not> is_serial ''Artist''
   \<and> is_serial ''Serial'' \<and> \<not> is_sensitive ''Serial''"
proof -
  have a: "is_sensitive name = (\<exists>t. t \<in> set sensitive_fields \<and> contains_ci name t)"
    unfolding is_sensitive_def contains_ci_def list_ex_iff str_in_iff by blast
  have b: "is_serial name = contains_ci name ''serial''"
    unfolding is_serial_def contains_ci_def str_in_iff lower_serial by simp
  have c: "is_sensitive ''CameraSerialNumber''" by code_simp
  have d: "is_serial ''CameraSerialNumber''" by code_simp
  have e: "is_sensitive ''Artist''" by code_simp
  have f: "\<not> is_serial ''Artist''" by code_simp
  have g: "is_serial ''Serial''" by code_simp
  have h: "\<not> is_sensitive ''Serial''" by code_simp
  from a b c d e f g h show ?thesis by blast
qed

section \<open>The snapshot of the extractor\<close>

lemma map_fst_dict_set:
  "map fst (dict_set d k v) = (if k \<in> set (map fst d) then map fst d else map fst d @ [k])"
  by (induction d) (auto simp: rev_image_eqI)

lemma keys_dict_set: "keys (dict_set d k v) = insert k (keys d)"
  by (auto simp: keys_def map_fst_dict_set)

lemma map_of_dict_set: "map_of (dict_set d k v) k' = (if k' = k then Some v else map_of d k')"
  by (induction d) auto

lemma dict_set_not_Nil: "dict_set d k v \<noteq> []"
  by (cases d) (auto split: if_splits)

lemma keys_store_tag: "keys md \<subseteq> keys (store_tag E r i v md)"
  by (auto simp: store_tag_def Let_def keys_dict_set split: val.splits bool.splits)

lemma keys_process_tags: "process_tags E r tbl md = (m, x) \<Longrightarrow> keys md \<subseteq> keys m"
proof (induction tbl arbitrary: md)
  case Nil
  then show ?case by simp
next
  case (Cons a tbl)
  obtain i e where a: "a = (i, e)" by (cases a)
  show ?case
  proof (cases e)
    case (Inl ex)
    with Cons.prems a show ?thesis by simp
  next
    case (Inr v)
    with Cons.prems a have "process_tags E r tbl (store_tag E r i v md) = (m, x)" by simp
    from Cons.IH [OF this] keys_store_tag [of md E r i v] show ?thesis by blast
  qed
qed

lemma keys_add_image_info:
  "keys (add_image_info img md) = {KStr ''Image Format'', KStr ''Image Mode'', KStr ''Image Size''} \<union> keys md"
  by (auto simp: add_image_info_def keys_dict_set)

lemma extract_tags_ok: "extract_tags E img = (m, None) \<Longrightarrow> \<exists>m0. m = add_image_info img m0"
  by (auto simp: extract_tags_def split: sum.splits option.splits prod.splits)

lemma get_metadata_try_ok:
  "get_metadata_try E fs p = (m, None) \<Longrightarrow> \<exists>img m0. image_open E fs p = Inr img \<and> m = add_image_info img m0"
  by (auto simp: get_metadata_try_def split: sum.splits dest: extract_tags_ok)

lemma get_metadata_cases:
  "get_metadata E fs p =
     (case get_metadata_try E fs p of
        (m, None) \<Rightarrow> Inr m
      | (m, Some e) \<Rightarrow> Inr (dict_set m (KStr ''Error'') (VStr (exn_str e))))"
  by (simp add: get_metadata_def)

lemma display_entries_prefix: "\<exists>more. fst (display_entries rp items out) = out @ more"
proof (induction items arbitrary: out)
  case Nil
  then show ?case by simp
next
  case (Cons a items)
  obtain k v where a: "a = (k, v)" by (cases a)
  obtain lines r where d: "display_entry rp k v = (lines, r)" by (cases "display_entry rp k v")
  show ?case
  proof (cases r)
    case None
    from Cons.IH [of "out @ lines"] obtain more
      where "fst (display_entries rp items (out @ lines)) = (out @ lines) @ more" by blast
    with a d None show ?thesis by simp
  next
    case (Some e)
    with a d show ?thesis by simp
  qed
qed

lemma display_header:
  "m \<noteq> [] \<Longrightarrow> \<exists>more. fst (display_metadata rp m label) = (text_of ''  '' @ text_of label @ text_of '':'') # more"
proof -
  assume ne: "m \<noteq> []"
  show ?thesis
  proof (cases "sorted_items m")
    case (Inl e)
    with ne show ?thesis by (simp add: display_metadata_def)
  next
    case (Inr items)
    from display_entries_prefix [of rp items "[text_of ''  '' @ text_of label @ text_of '':'']"]
    obtain more where "fst (display_entries rp items [text_of ''  '' @ text_of label @ text_of '':''])
        = [text_of ''  '' @ text_of label @ text_of '':''] @ more" by blast
    with ne Inr show ?thesis by (simp add: display_metadata_def)
  qed
qed

text \<open>
  C9. For every path the extractor returns a dictionary that is not empty: it holds the
  three descriptive fields, or it holds an \<open>Error\<close> entry. So \<^verbatim>\<open>display_metadata\<close>
  never takes its branch for an empty dictionary on a snapshot of the extractor: it
  prints the header line, not the line \<open>No metadata found\<close>.
\<close>

theorem get_metadata_nonempty:
  "\<exists>m. get_metadata E fs p = Inr m \<and> m \<noteq> []
       \<and> ((KStr ''Image Format'' \<in> keys m \<and> KStr ''Image Mode'' \<in> keys m \<and> KStr ''Image Size'' \<in> keys m)
            \<or> KStr ''Error'' \<in> keys m)
       \<and> (\<exists>more. fst (display_metadata rp m label) = (text_of ''  '' @ text_of label @ text_of '':'') # more)"
proof -
  obtain m0 r where t: "get_metadata_try E fs p = (m0, r)" by (cases "get_metadata_try E fs p")
  show ?thesis
  proof (cases r)
    case None
    with t obtain img m1 where m0: "m0 = add_image_info img m1"
      using get_metadata_try_ok by blast
    have g: "get_metadata E fs p = Inr m0" using t None by (simp add: get_metadata_def)
    have k: "KStr ''Image Format'' \<in> keys m0 \<and> KStr ''Image Mode'' \<in> keys m0 \<and> KStr ''Image Size'' \<in> keys m0"
      using m0 by (simp add: keys_add_image_info)
    then have ne: "m0 \<noteq> []" by (auto simp: keys_def)
    from g k ne display_header [OF ne] show ?thesis by blast
  next
    case (Some e)
    let ?m = "dict_set m0 (KStr ''Error'') (VStr (exn_str e))"
    have g: "get_metadata E fs p = Inr ?m" using t Some by (simp add: get_metadata_def)
    have k: "KStr ''Error'' \<in> keys ?m" by (simp add: keys_dict_set)
    have ne: "?m \<noteq> []" by (rule dict_set_not_Nil)
    from g k ne display_header [OF ne] show ?thesis by blast
  qed
qed

end
